theory Spec2Isabelle
  imports Main "HOL-Library.AList"
begin

section \<open>JavaScript objects used as dictionaries\<close>

text \<open>
  The Kernel keeps its two registries in plain object literals
  (\<^verbatim>\<open>commands = {}\<close>, \<^verbatim>\<open>flags = {}\<close>), and a command instance is an object too. An object
  is modelled by the list of its own properties, in the order of their creation, and by
  its prototype: \<open>None\<close> while it is the one the object was created with
  (\<^verbatim>\<open>Object.prototype\<close> for an object literal, the prototype of the class for an
  instance), and the value that replaced it after an assignment to \<^verbatim>\<open>__proto__\<close>.
\<close>

record 'v js_object =
  own :: "(string \<times> 'v) list"
  proto :: "'v option"

definition empty_object :: "'v js_object" where
  "empty_object = \<lparr>own = [], proto = None\<rparr>"

text \<open>
  The assignment \<^verbatim>\<open>obj[k] = v\<close> of a command constructor or of a flag record. Writing an
  existing key replaces the value where it stands, writing a new key appends it. The key
  \<^verbatim>\<open>__proto__\<close> is the exception: unless the object has an own property of that name, the
  assignment runs the setter inherited from \<^verbatim>\<open>Object.prototype\<close>, which replaces the
  prototype by the object assigned and creates no property.
\<close>

definition js_set :: "'v js_object \<Rightarrow> string \<Rightarrow> 'v \<Rightarrow> 'v js_object" where
  "js_set obj k v =
     (if k = ''__proto__'' \<and> map_of (own obj) k = None
      then obj\<lparr>proto := Some v\<rparr>
      else obj\<lparr>own := AList.update k v (own obj)\<rparr>)"

definition js_get_own :: "'v js_object \<Rightarrow> string \<Rightarrow> 'v option" where
  "js_get_own obj k = map_of (own obj) k"

text \<open>
  A read \<^verbatim>\<open>obj[k]\<close> that finds no own property continues in the prototype. These are the
  members of \<^verbatim>\<open>Object.prototype\<close>, every one of them a truthy value (a function, or for
  \<^verbatim>\<open>__proto__\<close> the prototype of the object that is read).
\<close>

definition object_prototype_members :: "string list" where
  "object_prototype_members =
     [''constructor'', ''__defineGetter__'', ''__defineSetter__'', ''hasOwnProperty'',
      ''__lookupGetter__'', ''__lookupSetter__'', ''isPrototypeOf'',
      ''propertyIsEnumerable'', ''toString'', ''valueOf'', ''__proto__'',
      ''toLocaleString'']"

text \<open>
  \<^verbatim>\<open>Object.keys\<close> lists the own keys that are array indices (canonical decimal numerals
  below \<open>2\<^sup>3\<^sup>2 - 1\<close>) first, in ascending numeric order, and then every other own key
  in the order of creation.
\<close>

definition digit_value :: "char \<Rightarrow> nat" where
  "digit_value c = of_char c - 48"

definition is_digit :: "char \<Rightarrow> bool" where
  "is_digit c = (c \<in> set ''0123456789'')"

definition index_value :: "string \<Rightarrow> nat" where
  "index_value s = foldl (\<lambda>n c. 10 * n + digit_value c) 0 s"

definition is_array_index :: "string \<Rightarrow> bool" where
  "is_array_index s =
     (case s of
        [] \<Rightarrow> False
      | c # cs \<Rightarrow> list_all is_digit s \<and> (cs = [] \<or> c \<noteq> CHR ''0'') \<and>
                 index_value s < 4294967295)"

definition key_order :: "string list \<Rightarrow> string list" where
  "key_order ks =
     sort_key index_value (filter is_array_index ks) @ filter (\<lambda>k. \<not> is_array_index k) ks"

definition object_keys :: "'v js_object \<Rightarrow> string list" where
  "object_keys obj = key_order (map fst (own obj))"

section \<open>Contracts\<close>

text \<open>
  Modelled from the spec: the declarations of \<^verbatim>\<open>../Contracts\<close> (\<^verbatim>\<open>CommandArg\<close>,
  \<^verbatim>\<open>CommandFlag\<close>, \<^verbatim>\<open>CommandConstructorContract\<close>, \<^verbatim>\<open>GlobalFlagHandler\<close>) are not among
  the sources. The records carry the fields that the data model of the specification
  lists and the Kernel reads: an argument has a name, is required or not and has a type,
  which the Kernel compares with \<^verbatim>\<open>'spread'\<close>; a flag has a name and a type; a command
  constructor has its \<^verbatim>\<open>commandName\<close>, which may be \<^verbatim>\<open>undefined\<close>, a description, its
  arguments in order and its flags, and \<^verbatim>\<open>class_name\<close> is the constructor's own
  \<^verbatim>\<open>name\<close>. A handler is a function of the caller; the model knows it by an
  identity.
\<close>

record command_arg =
  arg_name :: string
  required :: bool
  arg_type :: string

record command_flag =
  flag_name :: string
  flag_type :: string

record command =
  class_name :: string
  commandName :: "string option"
  description :: string
  args :: "command_arg list"
  cmd_flags :: "command_flag list"

datatype handler = Handler nat

record global_flag =
  gf_name :: string
  gf_handler :: handler
  gf_type :: string
  gf_alias :: "string option"
  gf_description :: "string option"

record flag_options =
  opt_type :: "string option"
  opt_alias :: "string option"
  opt_description :: "string option"

datatype error = Error string | TypeError

record kernel =
  commands :: "command js_object"
  flags :: "global_flag js_object"

definition new_kernel :: kernel where
  "new_kernel = \<lparr>commands = empty_object, flags = empty_object\<rparr>"

section \<open>Registration\<close>

text \<open>
  The body of \<^verbatim>\<open>command.args.forEach\<close> in \<^verbatim>\<open>_validateCommand\<close>, with the captured
  variable \<^verbatim>\<open>optionalArg\<close>, the index and \<^verbatim>\<open>command.args.length\<close> made explicit. The
  first test, \<^verbatim>\<open>optionalArg && arg.required\<close>, holds when the argument is required and an
  optional one has been seen; the message names both.
\<close>

fun validateArgs ::
  "command_arg option \<Rightarrow> nat \<Rightarrow> nat \<Rightarrow> command_arg list \<Rightarrow> error option" where
  "validateArgs optionalArg index len [] = None"
| "validateArgs optionalArg index len (arg # rest) =
     (case (if required arg then optionalArg else None) of
        Some opt \<Rightarrow>
          Some (Error (''option argument {'' @ arg_name opt @
                       ''} must be after required argument {'' @ arg_name arg @ ''}''))
      | None \<Rightarrow>
          if arg_type arg = ''spread'' \<and> len > index + 1
          then Some (Error ''spread arguments must be last'')
          else validateArgs (if \<not> required arg then Some arg else optionalArg)
                 (index + 1) len rest)"

definition falsy_name :: "string option \<Rightarrow> bool" where
  "falsy_name n = (case n of None \<Rightarrow> True | Some s \<Rightarrow> s = [])"

definition validateCommand :: "command \<Rightarrow> error option" where
  "validateCommand c =
     (if falsy_name (commandName c)
      then Some (Error (''missing command name for '' @ class_name c @ '' class''))
      else validateArgs None 0 (length (args c)) (args c))"

text \<open>The property key that \<^verbatim>\<open>this.commands[command.commandName]\<close> writes.\<close>

definition property_key :: "string option \<Rightarrow> string" where
  "property_key n = (case n of None \<Rightarrow> ''undefined'' | Some s \<Rightarrow> s)"

text \<open>
  \<^verbatim>\<open>register\<close> returns the Kernel as it stands when the call ends, and the error that
  ended it if one was thrown.
\<close>

fun register :: "kernel \<Rightarrow> command list \<Rightarrow> kernel \<times> error option" where
  "register k [] = (k, None)"
| "register k (c # cs) =
     (case validateCommand c of
        Some e \<Rightarrow> (k, Some e)
      | None \<Rightarrow>
          register (k\<lparr>commands := js_set (commands k) (property_key (commandName c)) c\<rparr>) cs)"

definition flag :: "kernel \<Rightarrow> string \<Rightarrow> handler \<Rightarrow> flag_options \<Rightarrow> kernel" where
  "flag k name h options =
     k\<lparr>flags := js_set (flags k) name
         \<lparr>gf_name = name, gf_handler = h,
          gf_type = (case opt_type options of None \<Rightarrow> ''boolean'' | Some t \<Rightarrow> t),
          gf_alias = opt_alias options,
          gf_description = opt_description options\<rparr>\<rparr>"

section \<open>Parse results\<close>

text \<open>
  Modelled from the spec: \<^verbatim>\<open>../Parser\<close> and the \<^verbatim>\<open>ParsedOptions\<close> of \<^verbatim>\<open>getopts\<close> are not
  among the sources. By the parser's contract in the specification a parse result has
  the positional values, strings in order, under \<^verbatim>\<open>_\<close> and one value per parsed flag; a
  read of a name it does not carry gives \<^verbatim>\<open>undefined\<close>.
\<close>

datatype jsval = Undefined | Bool bool | Num int | Str string | Arr "string list" | Opts parsed
and parsed = Parsed (positionals: "string list") (named: "(string \<times> jsval) list")

definition parsed_get :: "parsed \<Rightarrow> string \<Rightarrow> jsval" where
  "parsed_get options name =
     (if name = ''_'' then Arr (positionals options)
      else case map_of (named options) name of None \<Rightarrow> Undefined | Some v \<Rightarrow> v)"

text \<open>The values that are objects: arrays and parse results.\<close>

definition object_value :: "jsval \<Rightarrow> bool" where
  "object_value v = (case v of Arr _ \<Rightarrow> True | Opts _ \<Rightarrow> True | _ \<Rightarrow> False)"

section \<open>Lookup\<close>

text \<open>
  What \<^verbatim>\<open>this.commands[argv[0]] || null\<close> evaluates to: a registered command, another
  truthy value reached through the prototype, or \<^verbatim>\<open>null\<close>. An own property is found
  first. Without one, \<^verbatim>\<open>__proto__\<close> reads the prototype itself, which is a command once
  one has been registered under that name; any other name is read from the prototype:
  from \<^verbatim>\<open>Object.prototype\<close>, or from the command constructor that replaced it. What a
  read of a member of a command constructor gives (a static member of the class or of a
  class it extends, or nothing) is not the Kernel's and is a parameter of the model, taken
  to return like the other code outside the Kernel.
\<close>

datatype resolved = Cmd command | Inherited string

type_synonym members = "command \<Rightarrow> string \<Rightarrow> resolved option"

definition find :: "members \<Rightarrow> kernel \<Rightarrow> string list \<Rightarrow> resolved option" where
  "find member k argv =
     (let key = (case argv of [] \<Rightarrow> ''undefined'' | a # _ \<Rightarrow> a)
      in case js_get_own (commands k) key of
           Some c \<Rightarrow> Some (Cmd c)
         | None \<Rightarrow>
             (case proto (commands k) of
                None \<Rightarrow>
                  if key \<in> set object_prototype_members then Some (Inherited key) else None
              | Some p \<Rightarrow> if key = ''__proto__'' then Some (Cmd p) else member p key))"

section \<open>Dispatch\<close>

text \<open>
  The parser, the global flag handlers, the command constructors and the commands'
  \<^verbatim>\<open>handle\<close> methods are code outside the Kernel. A run of the Kernel is described by the
  calls it makes to them, in order, each taken to return normally; the parser's answer is
  a parameter of the model.
\<close>

type_synonym command_instance = "jsval js_object"

datatype event =
    NewParser "global_flag js_object"
  | ParseCall "string list" "resolved option"
  | HandlerCall handler jsval parsed "resolved option"
  | NewCommand resolved
  | HandleCall command command_instance

datatype retval = Void | HandleResult command command_instance

record result =
  events :: "event list"
  argv_after :: "string list"
  kernel_after :: kernel
  returned :: "error + retval"

type_synonym parser = "global_flag js_object \<Rightarrow> string list \<Rightarrow> resolved option \<Rightarrow> parsed"

definition empty_value :: "jsval \<Rightarrow> bool" where
  "empty_value v = (case v of Str s \<Rightarrow> length s = 0 | Arr a \<Rightarrow> length a = 0 | _ \<Rightarrow> False)"

text \<open>
  The body of \<^verbatim>\<open>globalFlags.forEach\<close>, over the names \<^verbatim>\<open>Object.keys\<close> returned. The names
  are own keys of the object, so the read \<^verbatim>\<open>this.flags[name]\<close> finds an own property
  (lemma \<open>object_keys_own\<close> below).
\<close>

fun fireEach ::
  "global_flag js_object \<Rightarrow> parsed \<Rightarrow> resolved option \<Rightarrow> string list \<Rightarrow> event list" where
  "fireEach fl options command [] = []"
| "fireEach fl options command (name # names) =
     (let value = parsed_get options name
      in if value = Undefined then fireEach fl options command names
         else if empty_value value then fireEach fl options command names
         else (case js_get_own fl name of
                 Some f \<Rightarrow> [HandlerCall (gf_handler f) (parsed_get options name) options command]
               | None \<Rightarrow> []) @
              fireEach fl options command names)"

definition executeGlobalFlagsHandlers ::
  "global_flag js_object \<Rightarrow> parsed \<Rightarrow> resolved option \<Rightarrow> event list" where
  "executeGlobalFlagsHandlers fl options command =
     fireEach fl options command (object_keys fl)"

text \<open>
  The assignment \<^verbatim>\<open>commandInstance[name] = value\<close>. Under \<^verbatim>\<open>__proto__\<close> the inherited
  setter replaces the prototype of the instance when the value is an object and does
  nothing when it is not.
\<close>

definition instance_set :: "command_instance \<Rightarrow> string \<Rightarrow> jsval \<Rightarrow> command_instance" where
  "instance_set inst k v =
     (if k = ''__proto__'' \<and> map_of (own inst) k = None
      then (if object_value v then inst\<lparr>proto := Some v\<rparr> else inst)
      else inst\<lparr>own := AList.update k v (own inst)\<rparr>)"

text \<open>
  The loop \<^verbatim>\<open>for (let i = 0; i < command.args.length; i++)\<close> of \<^verbatim>\<open>handle\<close>, entered at
  index \<open>i\<close> with the descriptors from \<open>i\<close> on.
\<close>

fun populateArgs ::
  "nat \<Rightarrow> command_arg list \<Rightarrow> string list \<Rightarrow> command_instance \<Rightarrow> command_instance" where
  "populateArgs i [] pos inst = inst"
| "populateArgs i (arg # rest) pos inst =
     (if arg_type arg = ''spread''
      then instance_set inst (arg_name arg) (Arr (drop i pos))
      else populateArgs (i + 1) rest pos
             (instance_set inst (arg_name arg)
                (if i < length pos then Str (pos ! i) else Undefined)))"

fun populateFlags :: "command_flag list \<Rightarrow> parsed \<Rightarrow> command_instance \<Rightarrow> command_instance" where
  "populateFlags [] options inst = inst"
| "populateFlags (f # fs) options inst =
     populateFlags fs options
       (instance_set inst (flag_name f) (parsed_get options (flag_name f)))"

definition populate :: "command \<Rightarrow> parsed \<Rightarrow> command_instance" where
  "populate c options =
     populateFlags (cmd_flags c) options
       (populateArgs 0 (args c) (positionals options)
          (instance_set empty_object ''parsed'' (Opts options)))"

text \<open>
  \<^verbatim>\<open>handle\<close> is a method of the command's class, so \<^verbatim>\<open>commandInstance.handle\<close> is that
  method as long as the instance has no own property \<^verbatim>\<open>handle\<close> and still has the
  prototype it was created with. An assignment of the population under the name
  \<^verbatim>\<open>handle\<close> hides the method behind a value that is no function, and an array or a
  parse result that has become the prototype has no such method: the call
  \<^verbatim>\<open>commandInstance.handle()\<close> then throws a TypeError.
\<close>

definition handleIsMethod :: "command_instance \<Rightarrow> bool" where
  "handleIsMethod inst = (js_get_own inst ''handle'' = None \<and> proto inst = None)"

definition startsWithDash :: "string \<Rightarrow> bool" where
  "startsWithDash s = (case s of [] \<Rightarrow> False | c # _ \<Rightarrow> c = CHR ''-'')"

text \<open>
  \<^verbatim>\<open>handle\<close>. A truthy value that \<^verbatim>\<open>find\<close> reached through the prototype is taken for the
  command: the run parses and fires the handlers with it and then ends in a TypeError,
  thrown by \<^verbatim>\<open>new command()\<close> or, when the value can be constructed (\<^verbatim>\<open>Object\<close> under
  \<^verbatim>\<open>constructor\<close>), by \<^verbatim>\<open>command.args.length\<close>.
\<close>

definition handle :: "parser \<Rightarrow> members \<Rightarrow> kernel \<Rightarrow> string list \<Rightarrow> result" where
  "handle parse member k argv =
     (case argv of
        [] \<Rightarrow> \<lparr>events = [], argv_after = argv, kernel_after = k, returned = Inr Void\<rparr>
      | a # rest \<Rightarrow>
          if startsWithDash a
          then
            (let parsedOptions = parse (flags k) argv None
             in \<lparr>events = [NewParser (flags k), ParseCall argv None] @
                           executeGlobalFlagsHandlers (flags k) parsedOptions None,
                 argv_after = argv, kernel_after = k, returned = Inr Void\<rparr>)
          else
            (case find member k argv of
               None \<Rightarrow>
                 \<lparr>events = [NewParser (flags k)], argv_after = argv, kernel_after = k,
                  returned = Inl (Error (a @ '' is not a registered command''))\<rparr>
             | Some command \<Rightarrow>
                 (let parsedOptions = parse (flags k) rest (Some command);
                      fired = [NewParser (flags k), ParseCall rest (Some command)] @
                              executeGlobalFlagsHandlers (flags k) parsedOptions (Some command)
                  in case command of
                       Cmd c \<Rightarrow>
                         (let commandInstance = populate c parsedOptions
                          in if handleIsMethod commandInstance
                             then \<lparr>events = fired @ [NewCommand command,
                                                      HandleCall c commandInstance],
                                   argv_after = [a], kernel_after = k,
                                   returned = Inr (HandleResult c commandInstance)\<rparr>
                             else \<lparr>events = fired @ [NewCommand command],
                                   argv_after = [a], kernel_after = k,
                                   returned = Inl TypeError\<rparr>)
                     | Inherited m \<Rightarrow>
                         \<lparr>events = fired, argv_after = [a], kernel_after = k,
                          returned = Inl TypeError\<rparr>)))"

section \<open>The example application\<close>

text \<open>
  The three commands of \<^verbatim>\<open>example/index.ts\<close> and its Kernel. The two arguments of
  \<^verbatim>\<open>Greet\<close> are required plain arguments, as in the specification's example.
\<close>

definition Greet :: command where
  "Greet =
     \<lparr>class_name = ''Greet'', commandName = Some ''greet'',
      description = ''Greet a user with their name'',
      args = [\<lparr>arg_name = ''name'', required = True, arg_type = ''value''\<rparr>,
              \<lparr>arg_name = ''age'', required = True, arg_type = ''value''\<rparr>],
      cmd_flags = [\<lparr>flag_name = ''env'', flag_type = ''string''\<rparr>,
                   \<lparr>flag_name = ''entrypoint'', flag_type = ''string''\<rparr>,
                   \<lparr>flag_name = ''fragment'', flag_type = ''array''\<rparr>]\<rparr>"

definition MakeController :: command where
  "MakeController =
     \<lparr>class_name = ''MakeController'', commandName = Some ''make:controller'',
      description = ''Create a HTTP controller'', args = [], cmd_flags = []\<rparr>"

definition MakeModel :: command where
  "MakeModel =
     \<lparr>class_name = ''MakeModel'', commandName = Some ''make:model'',
      description = ''Create database model'', args = [], cmd_flags = []\<rparr>"

definition string_option :: flag_options where
  "string_option = \<lparr>opt_type = Some ''string'', opt_alias = None, opt_description = None\<rparr>"

definition example_kernel :: kernel where
  "example_kernel =
     flag (fst (register new_kernel [Greet, MakeController, MakeModel]))
       ''env'' (Handler 0) string_option"

section \<open>The specification's words\<close>

subsection \<open>The shape of an argument list\<close>








text \<open>
  The command that a name stands for in the registry: the own property of that name, or
  for \<^verbatim>\<open>__proto__\<close> without an own property the command that has become the prototype.
\<close>

definition registered :: "command js_object \<Rightarrow> string \<Rightarrow> command option" where
  "registered obj n =
     (case js_get_own obj n of
        Some c \<Rightarrow> Some c
      | None \<Rightarrow> if n = ''__proto__'' then proto obj else None)"


subsection \<open>Populating a command instance\<close>

text \<open>
  The value the specification gives to the argument at index \<open>i\<close>, the arguments that
  are populated (all up to and including the first spread argument), the assignments to
  the instance in their order, and the instance they produce when every name is the
  name of a property: each name holds the value assigned to it last.
\<close>

definition spec_arg_value :: "string list \<Rightarrow> nat \<Rightarrow> command_arg \<Rightarrow> jsval" where
  "spec_arg_value pos i a =
     (if arg_type a = ''spread'' then Arr (drop i pos)
      else if i < length pos then Str (pos ! i) else Undefined)"

definition populated_args :: "command_arg list \<Rightarrow> command_arg list" where
  "populated_args as = take (Suc (length (takeWhile (\<lambda>a. arg_type a \<noteq> ''spread'') as))) as"

definition spec_assignments :: "command \<Rightarrow> parsed \<Rightarrow> (string \<times> jsval) list" where
  "spec_assignments c options =
     (''parsed'', Opts options) #
     map (\<lambda>(i, a). (arg_name a, spec_arg_value (positionals options) i a))
       (enumerate 0 (populated_args (args c))) @
     map (\<lambda>f. (flag_name f, parsed_get options (flag_name f))) (cmd_flags c)"

definition spec_instance :: "command \<Rightarrow> parsed \<Rightarrow> command_instance" where
  "spec_instance c options =
     \<lparr>own = foldl (\<lambda>props (name, v). AList.update name v props) []
              (spec_assignments c options),
      proto = None\<rparr>"

text \<open>The names of the descriptors of a command, and the two that are no plain property
  names of an instance.\<close>

definition descriptor_names :: "command \<Rightarrow> string list" where
  "descriptor_names c = map arg_name (args c) @ map flag_name (cmd_flags c)"

definition plain_names :: "command \<Rightarrow> bool" where
  "plain_names c = list_all (\<lambda>n. n \<noteq> ''handle'' \<and> n \<noteq> ''__proto__'') (descriptor_names c)"

subsection \<open>Firing the global flag handlers\<close>

text \<open>
  A handler fires when the parsed value is not absent and, if it is a string or an
  array, not empty.
\<close>

definition fires :: "jsval \<Rightarrow> bool" where
  "fires v = (v \<noteq> Undefined \<and> (case v of Str s \<Rightarrow> s \<noteq> [] | Arr a \<Rightarrow> a \<noteq> [] | _ \<Rightarrow> True))"

text \<open>
  The calls for one key of a flag registry, and the calls for all its keys in the order
  of \<^verbatim>\<open>Object.keys\<close>: the matching handlers.
\<close>

definition calls_at ::
  "global_flag js_object \<Rightarrow> parsed \<Rightarrow> resolved option \<Rightarrow> string \<Rightarrow> event list" where
  "calls_at fl options command n =
     (case js_get_own fl n of
        None \<Rightarrow> []
      | Some f \<Rightarrow>
          if fires (parsed_get options n)
          then [HandlerCall (gf_handler f) (parsed_get options n) options command]
          else [])"

definition matching_calls ::
  "global_flag js_object \<Rightarrow> parsed \<Rightarrow> resolved option \<Rightarrow> event list" where
  "matching_calls fl options command =
     concat (map (calls_at fl options command) (object_keys fl))"

text \<open>A sequence of calls of \<^verbatim>\<open>flag\<close>, in the order they are made.\<close>

type_synonym registration = "string \<times> handler \<times> flag_options"

definition flag_all :: "kernel \<Rightarrow> registration list \<Rightarrow> kernel" where
  "flag_all k regs = foldl (\<lambda>k (name, h, options). flag k name h options) k regs"

text \<open>The registered names in the order of their first registration.\<close>

definition insertion_order :: "string list \<Rightarrow> string list" where
  "insertion_order ns = foldl (\<lambda>acc n. if n \<in> set acc then acc else acc @ [n]) [] ns"

text \<open>The names that become keys of the registry: all but \<^verbatim>\<open>__proto__\<close>.\<close>

definition key_names :: "registration list \<Rightarrow> string list" where
  "key_names regs = filter (\<lambda>n. n \<noteq> ''__proto__'') (map fst regs)"

text \<open>The handler a name has after all registrations: the last one registered.\<close>

definition last_handler :: "registration list \<Rightarrow> string \<Rightarrow> handler option" where
  "last_handler regs n = map_of (rev (map (\<lambda>(name, h, options). (name, h)) regs)) n"

text \<open>The handler calls for a list of names, one name after the other.\<close>

definition fired_in_order ::
  "registration list \<Rightarrow> parsed \<Rightarrow> resolved option \<Rightarrow> string list \<Rightarrow> event list" where
  "fired_in_order regs options command ns =
     concat (map (\<lambda>n. case last_handler regs n of
                         None \<Rightarrow> []
                       | Some h \<Rightarrow>
                           if fires (parsed_get options n)
                           then [HandlerCall h (parsed_get options n) options command]
                           else [])
                 ns)"

text \<open>The handler calls that pass a given command argument, and the handler calls among
  the events of a run.\<close>

definition handler_call_with :: "resolved option \<Rightarrow> event \<Rightarrow> bool" where
  "handler_call_with command e =
     (case e of HandlerCall _ _ _ c \<Rightarrow> c = command | _ \<Rightarrow> False)"

definition handler_calls :: "event list \<Rightarrow> event list" where
  "handler_calls es = filter (\<lambda>e. case e of HandlerCall _ _ _ _ \<Rightarrow> True | _ \<Rightarrow> False) es"

section \<open>Facts about objects and registration\<close>

lemma registered_js_set:
  "registered (js_set obj k v) n = (if n = k then Some v else registered obj n)"
  by (auto simp: registered_def js_set_def js_get_own_def update_conv' split: option.splits)


lemma find_registered:
  "registered (commands k) n = Some c \<Longrightarrow> find member k (n # rest) = Some (Cmd c)"
  by (auto simp: find_def registered_def split: option.splits if_splits)

lemma set_key_order: "set (key_order ks) = set ks"
  by (auto simp: key_order_def)

lemma object_keys_own: "name \<in> set (object_keys obj) \<Longrightarrow> js_get_own obj name \<noteq> None"
  by (simp add: object_keys_def set_key_order js_get_own_def map_of_eq_None_iff)



lemma register_flags: "flags (fst (register k cs)) = flags k"
  by (induction cs arbitrary: k) (auto split: option.splits)






lemma MakeController_valid: "validateCommand MakeController = None"
  by (simp add: validateCommand_def falsy_name_def MakeController_def)

lemma MakeModel_valid: "validateCommand MakeModel = None"
  by (simp add: validateCommand_def falsy_name_def MakeModel_def)

lemmas example_defs = example_kernel_def Greet_def MakeController_def MakeModel_def
  string_option_def new_kernel_def empty_object_def flag_def validateCommand_def
  falsy_name_def property_key_def js_set_def js_get_own_def

section \<open>The dispatch pipeline\<close>

text \<open>
  C9. \<^verbatim>\<open>handle([])\<close> returns at once with an undefined result: the Kernel makes no call
  to the parser, to a global flag handler or to a command, the array is as it was, and
  both registries are unchanged.
\<close>

theorem handle_empty_argv:
  "handle parse member k [] =
     \<lparr>events = [], argv_after = [], kernel_after = k, returned = Inr Void\<rparr>"
  by (simp add: handle_def)

text \<open>
  C6. When the first element of \<^verbatim>\<open>argv\<close> does not start with \<^verbatim>\<open>-\<close> and names a registered
  command, the caller's array holds only that first element after the call: the parser
  is handed the elements that \<^verbatim>\<open>splice\<close> removed from it.
\<close>

theorem handle_splices_argv:
  "\<not> startsWithDash a \<Longrightarrow> find member k (a # rest) = Some (Cmd c) \<Longrightarrow>
     argv_after (handle parse member k (a # rest)) = [a] \<and>
     events (handle parse member k (a # rest)) ! 1 = ParseCall rest (Some (Cmd c))"
  by (simp add: handle_def Let_def)

theorem handle_splices_argv_witness:
  "\<not> startsWithDash ''greet'' \<and>
   find (\<lambda>c key. None) example_kernel [''greet'', ''Virk'', ''28''] = Some (Cmd Greet) \<and>
   argv_after (handle (\<lambda>fl argv command. Parsed argv []) (\<lambda>c key. None) example_kernel
       [''greet'', ''Virk'', ''28'']) = [''greet''] \<and>
   events (handle (\<lambda>fl argv command. Parsed argv []) (\<lambda>c key. None) example_kernel
       [''greet'', ''Virk'', ''28'']) ! 1 = ParseCall [''Virk'', ''28''] (Some (Cmd Greet))"
proof -
  have dash: "\<not> startsWithDash ''greet''"
    by (simp add: startsWithDash_def)
  have found: "find (\<lambda>c key. None) example_kernel [''greet'', ''Virk'', ''28''] = Some (Cmd Greet)"
    by (simp add: find_def example_defs)
  show ?thesis
    using dash found handle_splices_argv [OF dash found] by simp
qed

section \<open>Registration and the registries\<close>





section \<open>The shape of argument lists\<close>
















section \<open>Names that find no registered command\<close>

text \<open>
  On a registry that still has the prototype of an object literal, a name that is
  neither an own key nor a member of \<^verbatim>\<open>Object.prototype\<close> is refused before anything is
  parsed: the parser has been constructed, and nothing else has happened.
\<close>

lemma handle_unknown_command:
  "\<not> startsWithDash a \<Longrightarrow> js_get_own (commands k) a = None \<Longrightarrow>
   proto (commands k) = None \<Longrightarrow> a \<notin> set object_prototype_members \<Longrightarrow>
     handle parse member k (a # rest) =
       \<lparr>events = [NewParser (flags k)], argv_after = a # rest, kernel_after = k,
        returned = Inl (Error (a @ '' is not a registered command''))\<rparr>"
  by (simp add: handle_def find_def)

lemma handle_unknown_example:
  "handle parse member example_kernel [''unknown:cmd''] =
     \<lparr>events = [NewParser (flags example_kernel)], argv_after = [''unknown:cmd''],
      kernel_after = example_kernel,
      returned = Inl (Error ''unknown:cmd is not a registered command'')\<rparr>"
  using handle_unknown_command [of "''unknown:cmd''" example_kernel parse member "[]"]
  by (simp add: startsWithDash_def object_prototype_members_def example_defs)

text \<open>
  C4. A first element that names no registered command does not always end in the
  error that names it. \<^verbatim>\<open>toString\<close> is no command of a new Kernel, yet the read
  \<^verbatim>\<open>this.commands['toString']\<close> finds the method every object inherits, \<^verbatim>\<open>find\<close> does
  not return \<^verbatim>\<open>null\<close>, the caller's array is spliced, the parser is called with that
  method as the command, and the run ends in a TypeError instead of
  \<^verbatim>\<open>toString is not a registered command\<close>.
\<close>

theorem handle_inherited_name:
  "\<not> startsWithDash ''toString'' \<and>
   js_get_own (commands new_kernel) ''toString'' = None \<and>
   find member new_kernel [''toString''] = Some (Inherited ''toString'') \<and>
   handle parse member new_kernel [''toString''] =
     \<lparr>events = [NewParser \<lparr>own = [], proto = None\<rparr>,
                ParseCall [] (Some (Inherited ''toString''))],
      argv_after = [''toString''], kernel_after = new_kernel, returned = Inl TypeError\<rparr> \<and>
   returned (handle parse member new_kernel [''toString'']) \<noteq>
     Inl (Error ''toString is not a registered command'')"
  by (simp add: handle_def find_def startsWithDash_def new_kernel_def empty_object_def
      js_get_own_def object_prototype_members_def executeGlobalFlagsHandlers_def
      object_keys_def key_order_def)

section \<open>Firing the global flag handlers\<close>

lemma fires_iff: "fires v \<longleftrightarrow> \<not> (v = Undefined \<or> empty_value v)"
  by (cases v) (auto simp: fires_def empty_value_def)

lemma fireEach_calls_at:
  "fireEach fl options command names = concat (map (calls_at fl options command) names)"
  by (induction names) (auto simp: calls_at_def fires_iff Let_def split: option.splits)

lemma fired_matching:
  "executeGlobalFlagsHandlers fl options command = matching_calls fl options command"
  by (simp add: executeGlobalFlagsHandlers_def matching_calls_def fireEach_calls_at)

lemma calls_at_handler_calls:
  "list_all (handler_call_with command) (calls_at fl options command n)"
  by (simp add: calls_at_def handler_call_with_def split: option.splits)

lemma matching_handler_calls:
  "list_all (handler_call_with command) (matching_calls fl options command)"
  by (simp add: matching_calls_def list_all_iff calls_at_handler_calls [unfolded list_all_iff])

text \<open>
  C7. When the first element of \<^verbatim>\<open>argv\<close> starts with \<^verbatim>\<open>-\<close>, \<^verbatim>\<open>handle\<close> parses the whole
  \<^verbatim>\<open>argv\<close> with a parser built from the global flags and without a command, fires the
  matching global flag handlers (for each key of the flag registry whose parsed value
  is not undefined and, as a string or an array, not empty, the handler under that key)
  with no command as context, and returns an undefined result. The run has no other
  event: no command is constructed or run, and no error is raised.
\<close>

theorem handle_flag_only:
  "startsWithDash a \<Longrightarrow>
     handle parse member k (a # rest) =
       \<lparr>events = [NewParser (flags k), ParseCall (a # rest) None] @
                  matching_calls (flags k) (parse (flags k) (a # rest) None) None,
        argv_after = a # rest, kernel_after = k, returned = Inr Void\<rparr> \<and>
     list_all (handler_call_with None)
       (matching_calls (flags k) (parse (flags k) (a # rest) None) None)"
  by (simp add: handle_def fired_matching matching_handler_calls)

lemmas firing_defs = matching_calls_def calls_at_def object_keys_def key_order_def
  is_array_index_def is_digit_def index_value_def digit_value_def parsed_get_def fires_def

theorem handle_flag_only_witness:
  "startsWithDash ''--env=prod'' \<and>
   handle (\<lambda>fl argv command. Parsed [] [(''env'', Str ''prod'')]) (\<lambda>c key. None) example_kernel
       [''--env=prod''] =
     \<lparr>events = [NewParser (flags example_kernel), ParseCall [''--env=prod''] None,
                HandlerCall (Handler 0) (Str ''prod'') (Parsed [] [(''env'', Str ''prod'')]) None],
      argv_after = [''--env=prod''], kernel_after = example_kernel, returned = Inr Void\<rparr> \<and>
   startsWithDash ''--env='' \<and>
   handle (\<lambda>fl argv command. Parsed [] [(''env'', Str [])]) (\<lambda>c key. None) example_kernel
       [''--env=''] =
     \<lparr>events = [NewParser (flags example_kernel), ParseCall [''--env=''] None],
      argv_after = [''--env=''], kernel_after = example_kernel, returned = Inr Void\<rparr>"
proof -
  let ?member = "\<lambda>c key. None :: resolved option"
  let ?prod = "Parsed [] [(''env'', Str ''prod'')]"
  let ?none = "Parsed [] [(''env'', Str [])]"
  have dash: "startsWithDash ''--env=prod''" "startsWithDash ''--env=''"
    by (simp_all add: startsWithDash_def)
  have prod: "matching_calls (flags example_kernel) ?prod None =
      [HandlerCall (Handler 0) (Str ''prod'') ?prod None]"
    by (simp add: firing_defs example_defs)
  have none: "matching_calls (flags example_kernel) ?none None = []"
    by (simp add: firing_defs example_defs)
  note fire = handle_flag_only [OF dash(1), where parse = "\<lambda>fl argv command. ?prod"
      and member = ?member and k = example_kernel and rest = "[]"]
  note quiet = handle_flag_only [OF dash(2), where parse = "\<lambda>fl argv command. ?none"
      and member = ?member and k = example_kernel and rest = "[]"]
  from fire have 1: "handle (\<lambda>fl argv command. ?prod) ?member example_kernel [''--env=prod''] =
      \<lparr>events = [NewParser (flags example_kernel), ParseCall [''--env=prod''] None,
                 HandlerCall (Handler 0) (Str ''prod'') ?prod None],
       argv_after = [''--env=prod''], kernel_after = example_kernel, returned = Inr Void\<rparr>"
    unfolding prod by simp
  from quiet have 2: "handle (\<lambda>fl argv command. ?none) ?member example_kernel [''--env=''] =
      \<lparr>events = [NewParser (flags example_kernel), ParseCall [''--env=''] None],
       argv_after = [''--env=''], kernel_after = example_kernel, returned = Inr Void\<rparr>"
    unfolding none by simp
  from dash 1 2 show ?thesis
    by blast
qed

lemma js_get_own_js_set:
  "n \<noteq> ''__proto__'' \<Longrightarrow>
     js_get_own (js_set obj name v) n = (if n = name then Some v else js_get_own obj n)"
  by (auto simp: js_get_own_def js_set_def update_conv')

lemma js_set_keys:
  "map fst (own (js_set obj name v)) =
     (if name = ''__proto__'' \<and> js_get_own obj name = None then map fst (own obj)
      else if name \<in> set (map fst (own obj)) then map fst (own obj)
      else map fst (own obj) @ [name])"
  by (auto simp: js_set_def js_get_own_def update_keys map_of_eq_None_iff)

lemma flag_all_Cons:
  "flag_all k ((name, h, options) # regs) = flag_all (flag k name h options) regs"
  by (simp add: flag_all_def)

lemma flag_all_keys:
  "js_get_own (flags k) ''__proto__'' = None \<Longrightarrow>
     map fst (own (flags (flag_all k regs))) =
       foldl (\<lambda>acc n. if n \<in> set acc then acc else acc @ [n]) (map fst (own (flags k)))
         (key_names regs)"
proof (induction regs arbitrary: k)
  case Nil
  then show ?case by (simp add: flag_all_def key_names_def)
next
  case (Cons r regs)
  obtain name h options where r: "r = (name, h, options)"
    by (cases r)
  let ?k = "flag k name h options"
  have keys: "map fst (own (flags ?k)) =
      (if name = ''__proto__'' then map fst (own (flags k))
       else if name \<in> set (map fst (own (flags k))) then map fst (own (flags k))
       else map fst (own (flags k)) @ [name])"
    using Cons.prems by (simp add: flag_def js_set_keys)
  have "js_get_own (flags ?k) ''__proto__'' = None"
    using Cons.prems by (simp add: flag_def js_set_def js_get_own_def update_conv')
  then have "map fst (own (flags (flag_all ?k regs))) =
      foldl (\<lambda>acc n. if n \<in> set acc then acc else acc @ [n]) (map fst (own (flags ?k)))
        (key_names regs)"
    by (rule Cons.IH)
  then show ?case
    unfolding r flag_all_Cons keys by (simp add: key_names_def)
qed

lemma last_handler_Cons:
  "last_handler ((name, h, options) # regs) n =
     (case last_handler regs n of Some h' \<Rightarrow> Some h' | None \<Rightarrow> if n = name then Some h else None)"
  by (simp add: last_handler_def map_add_def split: option.splits)

lemma flag_all_handler:
  "n \<noteq> ''__proto__'' \<Longrightarrow>
     map_option gf_handler (js_get_own (flags (flag_all k regs)) n) =
       (case last_handler regs n of
          Some h \<Rightarrow> Some h
        | None \<Rightarrow> map_option gf_handler (js_get_own (flags k) n))"
proof (induction regs arbitrary: k)
  case Nil
  then show ?case by (simp add: flag_all_def last_handler_def)
next
  case (Cons r regs)
  obtain name h options where r: "r = (name, h, options)"
    by (cases r)
  have step: "map_option gf_handler (js_get_own (flags (flag k name h options)) n) =
      (if n = name then Some h else map_option gf_handler (js_get_own (flags k) n))"
    using Cons.prems by (simp add: flag_def js_get_own_js_set)
  have "map_option gf_handler (js_get_own (flags (flag_all k (r # regs))) n) =
      (case last_handler regs n of
         Some h' \<Rightarrow> Some h'
       | None \<Rightarrow> map_option gf_handler (js_get_own (flags (flag k name h options)) n))"
    unfolding r flag_all_Cons using Cons.prems by (rule Cons.IH)
  also have "\<dots> =
      (case last_handler (r # regs) n of
         Some h' \<Rightarrow> Some h'
       | None \<Rightarrow> map_option gf_handler (js_get_own (flags k) n))"
    unfolding r last_handler_Cons step by (cases "last_handler regs n") simp_all
  finally show ?case .
qed

lemma fired_by_registrations:
  "executeGlobalFlagsHandlers (flags (flag_all new_kernel regs)) options command =
     fired_in_order regs options command (key_order (insertion_order (key_names regs)))"
proof -
  let ?fl = "flags (flag_all new_kernel regs)"
  have fresh: "js_get_own (flags new_kernel) ''__proto__'' = None"
    by (simp add: new_kernel_def empty_object_def js_get_own_def)
  have keys: "object_keys ?fl = key_order (insertion_order (key_names regs))"
    using flag_all_keys [OF fresh, of regs]
    by (simp add: object_keys_def insertion_order_def new_kernel_def empty_object_def)
  have proto: "''__proto__'' \<notin> set (key_order (insertion_order (key_names regs)))"
  proof -
    have "set (foldl (\<lambda>acc n. if n \<in> set acc then acc else acc @ [n]) acc ns) = set acc \<union> set ns"
      for acc ns :: "string list"
      by (induction ns arbitrary: acc) auto
    then show ?thesis
      by (simp add: set_key_order insertion_order_def key_names_def)
  qed
  have handler: "map_option gf_handler (js_get_own ?fl n) = last_handler regs n"
    if "n \<noteq> ''__proto__''" for n
    using flag_all_handler [OF that, of new_kernel regs]
    by (simp add: new_kernel_def empty_object_def js_get_own_def split: option.splits)
  have one: "calls_at ?fl options command n =
      (case last_handler regs n of
         None \<Rightarrow> []
       | Some h \<Rightarrow>
           if fires (parsed_get options n)
           then [HandlerCall h (parsed_get options n) options command]
           else [])" if "n \<noteq> ''__proto__''" for n
    using handler [OF that, symmetric] by (cases "js_get_own ?fl n") (simp_all add: calls_at_def)
  have "map (calls_at ?fl options command) (key_order (insertion_order (key_names regs))) =
      map (\<lambda>n. case last_handler regs n of
                 None \<Rightarrow> []
               | Some h \<Rightarrow>
                   if fires (parsed_get options n)
                   then [HandlerCall h (parsed_get options n) options command]
                   else [])
        (key_order (insertion_order (key_names regs)))"
  proof (intro map_cong refl)
    fix n
    assume "n \<in> set (key_order (insertion_order (key_names regs)))"
    with proto have "n \<noteq> ''__proto__''"
      by auto
    then show "calls_at ?fl options command n =
        (case last_handler regs n of
           None \<Rightarrow> []
         | Some h \<Rightarrow>
             if fires (parsed_get options n)
             then [HandlerCall h (parsed_get options n) options command]
             else [])"
      by (rule one)
  qed
  then show ?thesis
    unfolding fired_matching matching_calls_def keys fired_in_order_def
    by (rule arg_cong [where f = concat])
qed

lemma handler_calls_fired:
  "handler_calls (fired_in_order regs options command ns) =
     fired_in_order regs options command ns"
  by (induction ns) (auto simp: handler_calls_def fired_in_order_def split: option.splits)

text \<open>
  C3 (amended). Let the global flags of the Kernel come from the registrations \<open>regs\<close>.
  The handler calls made for a parse result are these, and no others: the names other
  than \<^verbatim>\<open>__proto__\<close> are taken in the order of \<^verbatim>\<open>Object.keys\<close>, that is the registered
  names that are array indices in ascending numeric order and then the other names in
  the order of their first registration; for each name whose parsed value is not
  undefined and, when it is a string or an array, not empty, the handler registered last
  under the name is called once, with the parsed value, the parse result and the
  command. \<^verbatim>\<open>handle\<close> makes these calls right after parsing, with no command on the
  flag-only path and with the resolved command otherwise, before the command is
  constructed.
\<close>

theorem global_flags_fire:
  "flags k = flags (flag_all new_kernel regs) \<Longrightarrow>
   order = key_order (insertion_order (key_names regs)) \<Longrightarrow>
     executeGlobalFlagsHandlers (flags k) options command =
       fired_in_order regs options command order \<and>
     (startsWithDash a \<longrightarrow>
        events (handle parse member k (a # rest)) =
          [NewParser (flags k), ParseCall (a # rest) None] @
          fired_in_order regs (parse (flags k) (a # rest) None) None order) \<and>
     (\<not> startsWithDash a \<and> find member k (a # rest) = Some (Cmd c) \<longrightarrow>
        (\<exists>tail.
           events (handle parse member k (a # rest)) =
             [NewParser (flags k), ParseCall rest (Some (Cmd c))] @
             fired_in_order regs (parse (flags k) rest (Some (Cmd c))) (Some (Cmd c)) order @
             NewCommand (Cmd c) # tail \<and>
           handler_calls tail = []))"
  by (auto simp: fired_by_registrations handle_def Let_def handler_calls_def)

theorem global_flags_fire_witness:
  "flags (fst (register (flag_all new_kernel
                           [(''verbose'', Handler 0, string_option),
                            (''__proto__'', Handler 3, string_option),
                            (''4'', Handler 1, string_option),
                            (''verbose'', Handler 2, string_option)]) [Greet])) =
     flags (flag_all new_kernel
              [(''verbose'', Handler 0, string_option), (''__proto__'', Handler 3, string_option),
               (''4'', Handler 1, string_option), (''verbose'', Handler 2, string_option)]) \<and>
   [''4'', ''verbose''] =
     key_order (insertion_order
       (key_names [(''verbose'', Handler 0, string_option),
                   (''__proto__'', Handler 3, string_option),
                   (''4'', Handler 1, string_option),
                   (''verbose'', Handler 2, string_option)])) \<and>
   startsWithDash ''--verbose'' \<and>
   events (handle
             (\<lambda>fl argv command.
                Parsed [] [(''verbose'', Bool False), (''4'', Str ''x''),
                           (''__proto__'', Bool True)])
             (\<lambda>c key. None)
             (fst (register (flag_all new_kernel
                               [(''verbose'', Handler 0, string_option),
                                (''__proto__'', Handler 3, string_option),
                                (''4'', Handler 1, string_option),
                                (''verbose'', Handler 2, string_option)]) [Greet]))
             [''--verbose'', ''-4'', ''x'']) =
     [NewParser (flags (flag_all new_kernel
                          [(''verbose'', Handler 0, string_option),
                           (''__proto__'', Handler 3, string_option),
                           (''4'', Handler 1, string_option),
                           (''verbose'', Handler 2, string_option)])),
      ParseCall [''--verbose'', ''-4'', ''x''] None,
      HandlerCall (Handler 1) (Str ''x'')
        (Parsed [] [(''verbose'', Bool False), (''4'', Str ''x''), (''__proto__'', Bool True)])
        None,
      HandlerCall (Handler 2) (Bool False)
        (Parsed [] [(''verbose'', Bool False), (''4'', Str ''x''), (''__proto__'', Bool True)])
        None]"
proof -
  let ?regs = "[(''verbose'', Handler 0, string_option), (''__proto__'', Handler 3, string_option),
                (''4'', Handler 1, string_option), (''verbose'', Handler 2, string_option)]"
  let ?k = "fst (register (flag_all new_kernel ?regs) [Greet])"
  let ?p = "Parsed [] [(''verbose'', Bool False), (''4'', Str ''x''), (''__proto__'', Bool True)]"
  let ?member = "\<lambda>c key. None :: resolved option"
  have fl: "flags ?k = flags (flag_all new_kernel ?regs)"
    by (rule register_flags)
  have order: "[''4'', ''verbose''] = key_order (insertion_order (key_names ?regs))"
    by (simp add: key_order_def insertion_order_def key_names_def is_array_index_def
        is_digit_def index_value_def digit_value_def)
  have dash: "startsWithDash ''--verbose''"
    by (simp add: startsWithDash_def)
  have fired: "fired_in_order ?regs ?p None [''4'', ''verbose''] =
      [HandlerCall (Handler 1) (Str ''x'') ?p None, HandlerCall (Handler 2) (Bool False) ?p None]"
    by (simp add: fired_in_order_def last_handler_def parsed_get_def fires_def)
  note run = global_flags_fire [where k = ?k and regs = ?regs and order = "[''4'', ''verbose'']"
      and parse = "\<lambda>fl argv command. ?p" and member = ?member and a = "''--verbose''"
      and rest = "[''-4'', ''x'']", OF fl order]
  from run dash
  have "events (handle (\<lambda>fl argv command. ?p) ?member ?k [''--verbose'', ''-4'', ''x'']) =
      [NewParser (flags ?k), ParseCall [''--verbose'', ''-4'', ''x''] None] @
      fired_in_order ?regs ?p None [''4'', ''verbose'']"
    by blast
  then have "events (handle (\<lambda>fl argv command. ?p) ?member ?k [''--verbose'', ''-4'', ''x'']) =
      [NewParser (flags (flag_all new_kernel ?regs)),
       ParseCall [''--verbose'', ''-4'', ''x''] None,
       HandlerCall (Handler 1) (Str ''x'') ?p None, HandlerCall (Handler 2) (Bool False) ?p None]"
    unfolding fired fl by simp
  with fl order dash show ?thesis
    by blast
qed

text \<open>
  The order is not the order of registration: \<^verbatim>\<open>verbose\<close> is registered before \<^verbatim>\<open>4\<close>,
  both are present in the parse result, and the handler of \<^verbatim>\<open>4\<close> is called first.
\<close>

theorem global_flags_order_counterexample:
  "executeGlobalFlagsHandlers
       (flags (flag_all new_kernel
                 [(''verbose'', Handler 0, string_option), (''4'', Handler 1, string_option)]))
       (Parsed [] [(''verbose'', Bool True), (''4'', Bool True)]) None =
     [HandlerCall (Handler 1) (Bool True)
        (Parsed [] [(''verbose'', Bool True), (''4'', Bool True)]) None,
      HandlerCall (Handler 0) (Bool True)
        (Parsed [] [(''verbose'', Bool True), (''4'', Bool True)]) None] \<and>
   executeGlobalFlagsHandlers
       (flags (flag_all new_kernel
                 [(''verbose'', Handler 0, string_option), (''4'', Handler 1, string_option)]))
       (Parsed [] [(''verbose'', Bool True), (''4'', Bool True)]) None \<noteq>
     fired_in_order [(''verbose'', Handler 0, string_option), (''4'', Handler 1, string_option)]
       (Parsed [] [(''verbose'', Bool True), (''4'', Bool True)]) None
       (insertion_order [''verbose'', ''4''])"
  by (simp add: executeGlobalFlagsHandlers_def object_keys_def key_order_def is_array_index_def
      is_digit_def index_value_def digit_value_def parsed_get_def empty_value_def Let_def
      flag_all_def flag_def new_kernel_def empty_object_def js_set_def js_get_own_def
      string_option_def fired_in_order_def insertion_order_def last_handler_def fires_def)

section \<open>The last registration\<close>






text \<open>
  A command registered under \<^verbatim>\<open>__proto__\<close> becomes the prototype of the registry: the
  registry gets no key, and the name still finds the command.
\<close>

lemma register_proto_example:
  "own (commands (fst (register new_kernel [MakeModel\<lparr>commandName := Some ''__proto__''\<rparr>]))) =
     [] \<and>
   find member (fst (register new_kernel [MakeModel\<lparr>commandName := Some ''__proto__''\<rparr>]))
     [''__proto__''] = Some (Cmd (MakeModel\<lparr>commandName := Some ''__proto__''\<rparr>))"
  by (simp add: validateCommand_def falsy_name_def MakeModel_def property_key_def js_set_def
      new_kernel_def empty_object_def find_def js_get_own_def)




section \<open>Populating the command instance\<close>

lemma instance_set_plain:
  "n \<noteq> ''__proto__'' \<Longrightarrow> instance_set inst n v = inst\<lparr>own := AList.update n v (own inst)\<rparr>"
  by (simp add: instance_set_def)

lemma populated_args_Cons:
  "populated_args (a # as) = (if arg_type a = ''spread'' then [a] else a # populated_args as)"
  by (simp add: populated_args_def)

lemma populateArgs_assignments:
  "list_all (\<lambda>a. arg_name a \<noteq> ''__proto__'') as \<Longrightarrow>
     populateArgs i as pos inst =
       inst\<lparr>own := foldl (\<lambda>props (name, v). AList.update name v props) (own inst)
                (map (\<lambda>(j, a). (arg_name a, spec_arg_value pos j a))
                   (enumerate i (populated_args as)))\<rparr>"
proof (induction as arbitrary: i inst)
  case Nil
  then show ?case by (simp add: populated_args_def)
next
  case (Cons a as)
  then show ?case
    by (simp add: populated_args_Cons spec_arg_value_def instance_set_plain)
qed

lemma populateFlags_assignments:
  "list_all (\<lambda>f. flag_name f \<noteq> ''__proto__'') fs \<Longrightarrow>
     populateFlags fs options inst =
       inst\<lparr>own := foldl (\<lambda>props (name, v). AList.update name v props) (own inst)
                (map (\<lambda>f. (flag_name f, parsed_get options (flag_name f))) fs)\<rparr>"
  by (induction fs arbitrary: inst) (simp_all add: instance_set_plain)

lemma populate_spec_instance: "plain_names c \<Longrightarrow> populate c options = spec_instance c options"
  by (simp add: plain_names_def descriptor_names_def list_all_iff populate_def
      spec_instance_def spec_assignments_def populateArgs_assignments
      populateFlags_assignments instance_set_plain empty_object_def)

lemma foldl_update_keys:
  "fst ` set (foldl (\<lambda>props (name, v). AList.update name v props) props xs) =
     fst ` set props \<union> fst ` set xs"
proof (induction xs arbitrary: props)
  case Nil
  then show ?case by simp
next
  case (Cons x xs)
  obtain n v where x: "x = (n, v)"
    by (cases x)
  have "fst ` set (AList.update n v props) = insert n (fst ` set props)"
    using dom_update [of n v props] by (simp add: dom_map_of_conv_image_fst)
  with Cons.IH [of "AList.update n v props"] x show ?case
    by auto
qed

lemma populated_args_subset: "set (populated_args as) \<subseteq> set as"
  by (simp add: populated_args_def set_take_subset)

lemma spec_assignment_names:
  "fst ` set (spec_assignments c options) \<subseteq> insert ''parsed'' (set (descriptor_names c))"
proof -
  have "a \<in> set as" if "(i, a) \<in> set (enumerate 0 as)" for i and a :: command_arg and as
    using that by (metis enumerate_eq_zip in_set_zipE)
  then show ?thesis
    using populated_args_subset [of "args c"]
    by (fastforce simp: spec_assignments_def descriptor_names_def)
qed

lemma plain_names_method: "plain_names c \<Longrightarrow> handleIsMethod (spec_instance c options)"
proof -
  assume "plain_names c"
  then have "''handle'' \<notin> insert ''parsed'' (set (descriptor_names c))"
    by (auto simp: plain_names_def list_all_iff)
  then have "''handle'' \<notin> fst ` set (own (spec_instance c options))"
    using spec_assignment_names [of c options]
    by (auto simp: spec_instance_def foldl_update_keys)
  then show ?thesis
    by (simp add: handleIsMethod_def js_get_own_def map_of_eq_None_iff spec_instance_def)
qed

lemma foldl_update_distinct:
  "distinct (map fst (props @ xs)) \<Longrightarrow>
     foldl (\<lambda>props (name, v). AList.update name v props) props xs = props @ xs"
proof (induction xs arbitrary: props)
  case Nil
  then show ?case by simp
next
  case (Cons x xs)
  obtain n v where x: "x = (n, v)"
    by (cases x)
  from Cons.prems x have fresh: "n \<notin> fst ` set props"
    by auto
  then have upd: "AList.update n v props = props @ [(n, v)]"
    by (induction props) auto
  from Cons.prems x have "distinct (map fst ((props @ [(n, v)]) @ xs))"
    by simp
  then have "foldl (\<lambda>props (name, v). AList.update name v props) (props @ [(n, v)]) xs =
      (props @ [(n, v)]) @ xs"
    by (rule Cons.IH)
  with upd x show ?case
    by simp
qed

text \<open>
  C2 (amended). For a registered command found under \<^verbatim>\<open>argv[0]\<close>, none of whose argument
  and flag descriptors is named \<^verbatim>\<open>handle\<close> or \<^verbatim>\<open>__proto__\<close>, \<^verbatim>\<open>handle\<close> parses the rest of
  \<^verbatim>\<open>argv\<close>, fires the matching global flag handlers, constructs the command and calls its
  \<^verbatim>\<open>handle\<close> method last, on an instance that the assignments of the specification
  produce, made in their order: the parse result under \<^verbatim>\<open>parsed\<close>; for the argument at
  index \<open>i\<close>, up to and including the first spread argument, the positionals from \<open>i\<close>
  on if it is a spread argument and else the positional at \<open>i\<close>, which is undefined when
  there is none; and for each flag the parsed value under its name, undefined when
  absent. Each name holds the value assigned to it last, and when the assigned names
  are distinct the properties of the instance are exactly these assignments.
\<close>

theorem handle_populates_instance:
  "\<not> startsWithDash a \<Longrightarrow> find member k (a # rest) = Some (Cmd c) \<Longrightarrow> plain_names c \<Longrightarrow>
   options = parse (flags k) rest (Some (Cmd c)) \<Longrightarrow>
     handle parse member k (a # rest) =
       \<lparr>events = [NewParser (flags k), ParseCall rest (Some (Cmd c))] @
                  matching_calls (flags k) options (Some (Cmd c)) @
                  [NewCommand (Cmd c), HandleCall c (spec_instance c options)],
        argv_after = [a], kernel_after = k,
        returned = Inr (HandleResult c (spec_instance c options))\<rparr> \<and>
     (distinct (map fst (spec_assignments c options)) \<longrightarrow>
        own (spec_instance c options) = spec_assignments c options)"
proof (intro conjI impI)
  assume "\<not> startsWithDash a" "find member k (a # rest) = Some (Cmd c)" "plain_names c"
    "options = parse (flags k) rest (Some (Cmd c))"
  then show "handle parse member k (a # rest) =
       \<lparr>events = [NewParser (flags k), ParseCall rest (Some (Cmd c))] @
                  matching_calls (flags k) options (Some (Cmd c)) @
                  [NewCommand (Cmd c), HandleCall c (spec_instance c options)],
        argv_after = [a], kernel_after = k,
        returned = Inr (HandleResult c (spec_instance c options))\<rparr>"
    by (simp add: handle_def Let_def populate_spec_instance plain_names_method fired_matching)
next
  assume "distinct (map fst (spec_assignments c options))"
  then show "own (spec_instance c options) = spec_assignments c options"
    using foldl_update_distinct [of "[]" "spec_assignments c options"]
    by (simp add: spec_instance_def)
qed

theorem handle_populates_instance_witness:
  "\<not> startsWithDash ''greet'' \<and>
   find (\<lambda>c key. None) example_kernel [''greet'', ''Virk'', ''28''] = Some (Cmd Greet) \<and>
   plain_names Greet \<and>
   handle (\<lambda>fl argv command. Parsed argv []) (\<lambda>c key. None) example_kernel
       [''greet'', ''Virk'', ''28''] =
     \<lparr>events =
        [NewParser (flags example_kernel), ParseCall [''Virk'', ''28''] (Some (Cmd Greet)),
         NewCommand (Cmd Greet),
         HandleCall Greet
           \<lparr>own = [(''parsed'', Opts (Parsed [''Virk'', ''28''] [])), (''name'', Str ''Virk''),
                   (''age'', Str ''28''), (''env'', Undefined), (''entrypoint'', Undefined),
                   (''fragment'', Undefined)],
            proto = None\<rparr>],
      argv_after = [''greet''], kernel_after = example_kernel,
      returned =
        Inr (HandleResult Greet
               \<lparr>own = [(''parsed'', Opts (Parsed [''Virk'', ''28''] [])),
                       (''name'', Str ''Virk''), (''age'', Str ''28''), (''env'', Undefined),
                       (''entrypoint'', Undefined), (''fragment'', Undefined)],
                proto = None\<rparr>)\<rparr>"
proof -
  let ?parse = "\<lambda>fl argv command. Parsed argv []"
  let ?member = "\<lambda>c key. None :: resolved option"
  let ?options = "Parsed [''Virk'', ''28''] []"
  have dash: "\<not> startsWithDash ''greet''"
    by (simp add: startsWithDash_def)
  have found: "find ?member example_kernel [''greet'', ''Virk'', ''28''] = Some (Cmd Greet)"
    by (simp add: find_def example_defs)
  have plain: "plain_names Greet"
    by (simp add: plain_names_def descriptor_names_def Greet_def)
  have options: "?options = ?parse (flags example_kernel) [''Virk'', ''28''] (Some (Cmd Greet))"
    by simp
  have inst: "spec_instance Greet ?options =
      \<lparr>own = [(''parsed'', Opts ?options), (''name'', Str ''Virk''), (''age'', Str ''28''),
              (''env'', Undefined), (''entrypoint'', Undefined), (''fragment'', Undefined)],
       proto = None\<rparr>"
    by (simp add: spec_instance_def spec_assignments_def populated_args_def spec_arg_value_def
        parsed_get_def Greet_def)
  have quiet: "matching_calls (flags example_kernel) ?options (Some (Cmd Greet)) = []"
    by (simp add: firing_defs example_defs)
  note run = handle_populates_instance [where parse = ?parse and member = ?member
      and options = ?options and k = example_kernel and a = "''greet''"
      and rest = "[''Virk'', ''28'']" and c = Greet, OF dash found plain options]
  from run show ?thesis
    unfolding inst quiet using dash found plain by simp
qed

text \<open>
  A descriptor named \<^verbatim>\<open>handle\<close> is populated like any other, and the assignment hides
  the method of the class: \<^verbatim>\<open>Greet\<close> with its argument renamed is registered and found,
  its instance is constructed, and the call \<^verbatim>\<open>commandInstance.handle()\<close> throws a
  TypeError, so that \<^verbatim>\<open>handle()\<close> is never invoked.
\<close>

theorem handle_populates_counterexample:
  "validateCommand
     (Greet\<lparr>args := [\<lparr>arg_name = ''handle'', required = True, arg_type = ''value''\<rparr>]\<rparr>) =
     None \<and>
   find (\<lambda>c key. None)
     (fst (register new_kernel
        [Greet\<lparr>args := [\<lparr>arg_name = ''handle'', required = True, arg_type = ''value''\<rparr>]\<rparr>]))
     [''greet'', ''Virk''] =
     Some (Cmd (Greet\<lparr>args := [\<lparr>arg_name = ''handle'', required = True,
                                  arg_type = ''value''\<rparr>]\<rparr>)) \<and>
   populate (Greet\<lparr>args := [\<lparr>arg_name = ''handle'', required = True, arg_type = ''value''\<rparr>]\<rparr>)
     (Parsed [''Virk''] []) =
     \<lparr>own = [(''parsed'', Opts (Parsed [''Virk''] [])), (''handle'', Str ''Virk''),
             (''env'', Undefined), (''entrypoint'', Undefined), (''fragment'', Undefined)],
      proto = None\<rparr> \<and>
   handle (\<lambda>fl argv command. Parsed argv []) (\<lambda>c key. None)
     (fst (register new_kernel
        [Greet\<lparr>args := [\<lparr>arg_name = ''handle'', required = True, arg_type = ''value''\<rparr>]\<rparr>]))
     [''greet'', ''Virk''] =
     \<lparr>events =
        [NewParser empty_object,
         ParseCall [''Virk'']
           (Some (Cmd (Greet\<lparr>args := [\<lparr>arg_name = ''handle'', required = True,
                                         arg_type = ''value''\<rparr>]\<rparr>))),
         NewCommand
           (Cmd (Greet\<lparr>args := [\<lparr>arg_name = ''handle'', required = True,
                                   arg_type = ''value''\<rparr>]\<rparr>))],
      argv_after = [''greet''],
      kernel_after =
        fst (register new_kernel
          [Greet\<lparr>args := [\<lparr>arg_name = ''handle'', required = True, arg_type = ''value''\<rparr>]\<rparr>]),
      returned = Inl TypeError\<rparr>"
proof -
  let ?c = "Greet\<lparr>args := [\<lparr>arg_name = ''handle'', required = True, arg_type = ''value''\<rparr>]\<rparr>"
  let ?member = "\<lambda>c key. None :: resolved option"
  define K where "K = fst (register new_kernel [?c])"
  have valid: "validateCommand ?c = None"
    by (simp add: validateCommand_def falsy_name_def Greet_def)
  have k: "K = new_kernel\<lparr>commands := js_set (commands new_kernel) ''greet'' ?c\<rparr>"
    unfolding K_def using valid by (simp add: property_key_def Greet_def)
  have found: "find ?member K [''greet'', ''Virk''] = Some (Cmd ?c)"
    unfolding k by (simp add: find_registered registered_js_set)
  have inst: "populate ?c (Parsed [''Virk''] []) =
      \<lparr>own = [(''parsed'', Opts (Parsed [''Virk''] [])), (''handle'', Str ''Virk''),
              (''env'', Undefined), (''entrypoint'', Undefined), (''fragment'', Undefined)],
       proto = None\<rparr>"
    by (simp add: populate_def instance_set_def empty_object_def parsed_get_def Greet_def)
  have hidden: "\<not> handleIsMethod (populate ?c (Parsed [''Virk''] []))"
    unfolding inst by (simp add: handleIsMethod_def js_get_own_def)
  have "flags K = flags new_kernel"
    unfolding K_def by (rule register_flags)
  then have fl: "flags K = empty_object"
    by (simp add: new_kernel_def)
  have quiet: "executeGlobalFlagsHandlers empty_object options command = []" for options command
    by (simp add: executeGlobalFlagsHandlers_def object_keys_def key_order_def empty_object_def)
  have dash: "\<not> startsWithDash ''greet''"
    by (simp add: startsWithDash_def)
  have run: "handle (\<lambda>fl argv command. Parsed argv []) ?member K [''greet'', ''Virk''] =
      \<lparr>events = [NewParser empty_object, ParseCall [''Virk''] (Some (Cmd ?c)),
                 NewCommand (Cmd ?c)],
       argv_after = [''greet''], kernel_after = K, returned = Inl TypeError\<rparr>"
    using hidden by (simp add: handle_def dash found fl quiet)
  from valid found inst run show ?thesis
    unfolding K_def by blast
qed

text \<open>
  A spread argument takes the positionals from its index on, none when there are too
  few; a plain argument without a positional is undefined, required or not.
\<close>

lemma populate_spread_example:
  "populate
     \<lparr>class_name = ''Copy'', commandName = Some ''copy'', description = [],
      args = [\<lparr>arg_name = ''target'', required = True, arg_type = ''value''\<rparr>,
              \<lparr>arg_name = ''files'', required = True, arg_type = ''spread''\<rparr>],
      cmd_flags = []\<rparr>
     (Parsed [''out'', ''a.txt'', ''b.txt''] []) =
   \<lparr>own = [(''parsed'', Opts (Parsed [''out'', ''a.txt'', ''b.txt''] [])),
           (''target'', Str ''out''), (''files'', Arr [''a.txt'', ''b.txt''])],
    proto = None\<rparr>"
  by (simp add: populate_def instance_set_def empty_object_def)

lemma populate_missing_example:
  "populate
     \<lparr>class_name = ''Copy'', commandName = Some ''copy'', description = [],
      args = [\<lparr>arg_name = ''target'', required = True, arg_type = ''value''\<rparr>,
              \<lparr>arg_name = ''files'', required = True, arg_type = ''spread''\<rparr>],
      cmd_flags = []\<rparr>
     (Parsed [] []) =
   \<lparr>own = [(''parsed'', Opts (Parsed [] [])), (''target'', Undefined), (''files'', Arr [])],
    proto = None\<rparr>"
  by (simp add: populate_def instance_set_def empty_object_def)

end
